theory Spec2Isabelle
  imports Complex_Main
begin

section \<open>The breathing-exercise application (pulso\_v2.py)\<close>

text \<open>
  Python's floats and ints are modelled as the reals: arithmetic is exact, so rounding
  of the IEEE operations is not part of the model. Every exception the source can raise
  in the modelled functions is a value of \<open>py_error\<close>; a function that can raise
  returns \<open>py_error + 'a\<close> with \<open>Inl\<close> for the exception.
\<close>

datatype py_error = IndexError | KeyError | ZeroDivisionError

subsection \<open>Data model\<close>

text \<open>The dataclass \<open>BreathingPattern\<close>.\<close>

record BreathingPattern =
  phases :: "real list"
  uses_pace :: bool
  labels :: "string list"

text \<open>Class constants of \<open>BreathingApp\<close>.\<close>

definition MIN_BREATH_PACE :: real where "MIN_BREATH_PACE = 2.0"
definition MAX_BREATH_PACE :: real where "MAX_BREATH_PACE = 9.0"
definition DEFAULT_BREATH_PACE :: real where "DEFAULT_BREATH_PACE = 5.5"
definition MIN_SESSION_DURATION :: real where "MIN_SESSION_DURATION = 0.5"
definition MAX_SESSION_DURATION :: real where "MAX_SESSION_DURATION = 60.0"
definition DEFAULT_SESSION_DURATION :: real where "DEFAULT_SESSION_DURATION = 5.0"
definition CANVAS_SIZE :: int where "CANVAS_SIZE = 300"
definition CIRCLE_PADDING :: int where "CIRCLE_PADDING = 15"
definition UPDATE_INTERVAL :: int where "UPDATE_INTERVAL = 16"

text \<open>The two class dictionaries, as association lists turned into maps.\<close>

definition PHASE_COLORS :: "string \<rightharpoonup> string" where
  "PHASE_COLORS =
     map_of [(''inhale'', ''#3498db''), (''hold'', ''#2ecc71''), (''exhale'', ''#e67e22'')]"

definition SCALE_FACTORS :: "string \<rightharpoonup> (real \<Rightarrow> real)" where
  "SCALE_FACTORS =
     map_of [(''inhale'', \<lambda>p. 0.2 + 0.8 * p),
             (''exhale'', \<lambda>p. 1.0 - 0.8 * p),
             (''hold'', \<lambda>_. 1.0)]"

text \<open>The table \<open>self.patterns\<close> built in \<open>__init__\<close>.\<close>

definition balanced :: BreathingPattern where
  "balanced = \<lparr>phases = [1, 1], uses_pace = True, labels = [''inhale'', ''exhale'']\<rparr>"

definition calm :: BreathingPattern where
  "calm = \<lparr>phases = [1, 2], uses_pace = True, labels = [''inhale'', ''exhale'']\<rparr>"

definition vitality :: BreathingPattern where
  "vitality = \<lparr>phases = [2, 1], uses_pace = True, labels = [''inhale'', ''exhale'']\<rparr>"

definition four_seven_eight :: BreathingPattern where
  "four_seven_eight =
     \<lparr>phases = [4, 7, 8], uses_pace = False, labels = [''inhale'', ''hold'', ''exhale'']\<rparr>"

definition patterns :: "string \<rightharpoonup> BreathingPattern" where
  "patterns =
     map_of [(''Balanced (1:1)'', balanced),
             (''Calm (1:2)'', calm),
             (''Vitality (2:1)'', vitality),
             (''4-7-8 (+hold)'', four_seven_eight)]"

text \<open>A dictionary subscript \<open>d[k]\<close>: \<open>KeyError\<close> on a missing key.\<close>

definition subscript :: "('k \<rightharpoonup> 'v) \<Rightarrow> 'k \<Rightarrow> py_error + 'v" where
  "subscript d k = (case d k of None \<Rightarrow> Inl KeyError | Some v \<Rightarrow> Inr v)"

subsection \<open>\<open>_calc_phase_progress\<close>\<close>

text \<open>
  The \<open>for i, d in enumerate(pat.phases)\<close> loop, with the index \<open>i\<close> and the running
  offset \<open>c\<close> as arguments. The tuple of the \<open>return\<close> is evaluated left to right, so
  \<open>pat.labels[i]\<close> raises before \<open>e / d\<close> does. When the loop ends without returning,
  the fallback \<open>pat.labels[-1], 1.0, 0.0\<close> is taken; \<open>labels[-1]\<close> raises on an empty
  list.
\<close>

fun phase_loop ::
  "real \<Rightarrow> string list \<Rightarrow> nat \<Rightarrow> real \<Rightarrow> real list \<Rightarrow> py_error + (string \<times> real \<times> real)"
where
  "phase_loop t ls i c [] =
     (if ls = [] then Inl IndexError else Inr (last ls, 1.0, 0.0))"
| "phase_loop t ls i c (d # ds) =
     (if t < c + d then
        (let e = t - c in
         if \<not> i < length ls then Inl IndexError
         else if d = 0 then Inl ZeroDivisionError
         else Inr (ls ! i, e / d, d - e))
      else phase_loop t ls (Suc i) (c + d) ds)"

definition calc_phase_progress ::
  "real \<Rightarrow> BreathingPattern \<Rightarrow> real \<Rightarrow> py_error + (string \<times> real \<times> real)"
where
  "calc_phase_progress nrm pat tot = phase_loop (nrm * tot) (labels pat) 0 0 (phases pat)"

text \<open>
  The lookup \<open>self.SCALE_FACTORS[phase](prog)\<close> of \<open>_update_visuals\<close>.
\<close>

definition scaleFactor :: "string \<Rightarrow> real \<Rightarrow> py_error + real" where
  "scaleFactor phase p =
     (case subscript SCALE_FACTORS phase of Inl e \<Rightarrow> Inl e | Inr f \<Rightarrow> Inr (f p))"

subsection \<open>The progress step of \<open>_run_breathing_cycle\<close>\<close>

text \<open>
  \<open>cycle_time = 60 / self.breath_pace.get() if pat.uses_pace else total\<close> with
  \<open>total = sum(pat.phases)\<close>; the division raises when the pace is zero.
\<close>

definition cycle_time :: "BreathingPattern \<Rightarrow> real \<Rightarrow> py_error + real" where
  "cycle_time pat pace =
     (if uses_pace pat then (if pace = 0 then Inl ZeroDivisionError else Inr (60 / pace))
      else Inr (sum_list (phases pat)))"

text \<open>Python's \<open>x % y\<close> on floats with \<open>y\<close> not zero: the result has the sign of \<open>y\<close>.\<close>

definition py_mod :: "real \<Rightarrow> real \<Rightarrow> real" where
  "py_mod x y = x - y * of_int \<lfloor>x / y\<rfloor>"

text \<open>
  \<open>(self.progress + self.UPDATE_INTERVAL / (cycle_time * 1000)) % 1\<close>, with the tick
  length in milliseconds as the argument \<open>interval\<close>; the source passes the class
  constant \<open>UPDATE_INTERVAL\<close>.
\<close>

definition advance :: "real \<Rightarrow> real \<Rightarrow> BreathingPattern \<Rightarrow> real \<Rightarrow> py_error + real" where
  "advance interval prev pat pace =
     (case cycle_time pat pace of
        Inl e \<Rightarrow> Inl e
      | Inr ct \<Rightarrow>
          if ct * 1000 = 0 then Inl ZeroDivisionError
          else Inr (py_mod (prev + interval / (ct * 1000)) 1))"

subsection \<open>The slider handler \<open>_update_scale\<close>\<close>

text \<open>
  The argument \<open>value\<close>, by what \<open>float(value)\<close> makes of it: the number it denotes,
  an infinity or a NaN (on which \<open>round\<close> raises), or an exception of \<open>float\<close> itself.
\<close>

datatype slider_value = Number real | NonFinite | Malformed

text \<open>Python's \<open>round\<close> of a float to an integer: halves go to the even neighbour.\<close>

definition py_round :: "real \<Rightarrow> int" where
  "py_round x =
     (let f = \<lfloor>x\<rfloor>; r = x - of_int f in
      if r < 1 / 2 then f else if 1 / 2 < r then f + 1 else if even f then f else f + 1)"

text \<open>
  What the handler touches: the Tk variable, the label (the number it shows and the
  unit; the formatting to text is not modelled) and the bell of the master window.
\<close>

record scale_view =
  var :: real
  label_shown :: "real \<times> string"
  bells :: nat

text \<open>
  \<open>float(value)\<close> and the quotient \<open>float(value) / step\<close> are IEEE doubles: a real of
  magnitude \<open>2 ^ 1024 - 2 ^ 970\<close> (the largest double plus half a unit in its last place)
  or more rounds to an infinity. Below that magnitude the model keeps the exact real.
\<close>

definition float_overflow :: real where
  "float_overflow = 2 ^ 1024 - 2 ^ 970"

text \<open>
  The \<open>try\<close> block runs to its end on a number and a quotient that do not overflow
  and a step that is not zero. Every exception in it goes to the bare \<open>except\<close>, which
  sets the variable to its own value and rings the bell: the exception of \<open>float\<close>, the
  \<open>ZeroDivisionError\<close> of a zero step, and the exception of \<open>round\<close> on a NaN or an
  infinity, whether \<open>float\<close> returned it or the division overflowed to it.
\<close>

definition update_scale ::
  "slider_value \<Rightarrow> real \<Rightarrow> real \<Rightarrow> real \<Rightarrow> string \<Rightarrow> scale_view \<Rightarrow> scale_view"
where
  "update_scale v mn mx step unit w =
     (case v of
        Number x \<Rightarrow>
          if step = 0 then w\<lparr>var := var w, bells := Suc (bells w)\<rparr>
          else if float_overflow \<le> \<bar>x\<bar> \<or> float_overflow \<le> \<bar>x / step\<bar>
          then w\<lparr>var := var w, bells := Suc (bells w)\<rparr>
          else
            (let scaled = of_int (py_round (x / step)) * step;
                 clamped = max mn (min scaled mx)
             in w\<lparr>var := clamped, label_shown := (clamped, unit)\<rparr>)
      | _ \<Rightarrow> w\<lparr>var := var w, bells := Suc (bells w)\<rparr>)"

subsection \<open>The session controller\<close>

text \<open>
  The callbacks handed to \<open>master.after\<close>, and the text item of the canvas: "Ready", or
  the capitalised phase over the remaining time (kept as the number, before it is
  formatted with one decimal and the suffix "s").
\<close>

datatype callback = StopSession | RunBreathingCycle

datatype canvas_label = Ready | Countdown string real

text \<open>
  The fields of \<open>BreathingApp\<close> that the session methods read and write, the items of
  the canvas, and Tk's table of pending \<open>after\<close> callbacks: the identifier, the delay in
  milliseconds and the callback. Identifiers are handed out from a counter.
\<close>

record BreathingApp =
  selected_pattern :: string
  breath_pace :: real
  session_duration :: real
  is_running :: bool
  current_phase :: string
  progress :: real
  scheduled_end :: "nat option"
  start_stop_button :: string
  arc_extent :: real
  arc_outline :: string
  text_item :: canvas_label
  circle_coords :: "real \<times> real \<times> real \<times> real"
  arc_coords :: "real \<times> real \<times> real \<times> real"
  after_queue :: "(nat \<times> int \<times> callback) list"
  after_counter :: nat

definition after :: "int \<Rightarrow> callback \<Rightarrow> BreathingApp \<Rightarrow> nat \<times> BreathingApp" where
  "after ms cb s =
     (after_counter s,
      s\<lparr>after_queue := after_queue s @ [(after_counter s, ms, cb)],
        after_counter := Suc (after_counter s)\<rparr>)"

definition after_cancel :: "nat \<Rightarrow> BreathingApp \<Rightarrow> BreathingApp" where
  "after_cancel h s = s\<lparr>after_queue := filter (\<lambda>(i, ms, cb). i \<noteq> h) (after_queue s)\<rparr>"

text \<open>Python's \<open>int\<close> of a float truncates towards zero.\<close>

definition py_int :: "real \<Rightarrow> int" where
  "py_int x = (if 0 \<le> x then \<lfloor>x\<rfloor> else \<lceil>x\<rceil>)"

definition update_circle_size :: "real \<Rightarrow> BreathingApp \<Rightarrow> BreathingApp" where
  "update_circle_size scale s =
     (let c = CANVAS_SIZE div 2;
          r = of_int (c - CIRCLE_PADDING) * scale;
          coords = (of_int c - r, of_int c - r, of_int c + r, of_int c + r)
      in s\<lparr>circle_coords := coords, arc_coords := coords\<rparr>)"

definition update_visuals ::
  "real \<Rightarrow> real \<Rightarrow> string \<Rightarrow> BreathingApp \<Rightarrow> py_error + BreathingApp"
where
  "update_visuals prog rem phase s =
     (let ext = min 359.99 (359.99 * prog) in
      case subscript PHASE_COLORS phase of
        Inl e \<Rightarrow> Inl e
      | Inr colour \<Rightarrow>
          (let s1 = s\<lparr>arc_outline := colour, arc_extent := ext\<rparr>;
               s2 = s1\<lparr>text_item := Countdown phase rem\<rparr>
           in case scaleFactor phase prog of
                Inl e \<Rightarrow> Inl e
              | Inr scale \<Rightarrow> Inr (update_circle_size scale s2)))"

definition reset_visuals :: "BreathingApp \<Rightarrow> py_error + BreathingApp" where
  "reset_visuals s =
     (let s1 = s\<lparr>progress := 0, current_phase := ''exhale''\<rparr> in
      case subscript PHASE_COLORS ''inhale'' of
        Inl e \<Rightarrow> Inl e
      | Inr colour \<Rightarrow>
          (let s2 = s1\<lparr>arc_extent := 0, arc_outline := colour\<rparr>;
               s3 = s2\<lparr>text_item := Ready\<rparr>
           in Inr (update_circle_size 1.0 s3)))"

text \<open>
  \<open>if self.scheduled_end:\<close> tests the identifier for truth: \<open>None\<close> is false, and an
  identifier that \<open>after\<close> has returned is a non-empty string.
\<close>

definition stop_session :: "BreathingApp \<Rightarrow> py_error + BreathingApp" where
  "stop_session s =
     reset_visuals
       (if is_running s then
          (let s1 = s\<lparr>is_running := False\<rparr>;
               s2 = (case scheduled_end s1 of Some h \<Rightarrow> after_cancel h s1 | None \<Rightarrow> s1)
           in s2\<lparr>scheduled_end := None\<rparr>)
        else s)"

definition run_breathing_cycle :: "BreathingApp \<Rightarrow> py_error + BreathingApp" where
  "run_breathing_cycle s =
     (if \<not> is_running s then Inr s
      else
        case subscript patterns (selected_pattern s) of
          Inl e \<Rightarrow> Inl e
        | Inr pat \<Rightarrow>
            (let tot = sum_list (phases pat) in
             case advance (of_int UPDATE_INTERVAL) (progress s) pat (breath_pace s) of
               Inl e \<Rightarrow> Inl e
             | Inr np \<Rightarrow>
                 (let s1 = s\<lparr>progress := np\<rparr> in
                  case calc_phase_progress (progress s1) pat tot of
                    Inl e \<Rightarrow> Inl e
                  | Inr (phase, prog, rem) \<Rightarrow>
                      (let s2 = s1\<lparr>current_phase := phase\<rparr> in
                       case update_visuals prog rem phase s2 of
                         Inl e \<Rightarrow> Inl e
                       | Inr s3 \<Rightarrow> Inr (snd (after UPDATE_INTERVAL RunBreathingCycle s3))))))"

definition toggle_session :: "BreathingApp \<Rightarrow> py_error + BreathingApp" where
  "toggle_session s =
     (let s1 = s\<lparr>is_running := \<not> is_running s\<rparr>;
          s2 = s1\<lparr>start_stop_button := (if is_running s1 then ''Stop'' else ''Start'')\<rparr>
      in if is_running s2 then
           (let ms = py_int (session_duration s2 * 60 * 1000);
                (h, s3) = after ms StopSession s2;
                s4 = s3\<lparr>scheduled_end := Some h\<rparr>
            in run_breathing_cycle s4)
         else stop_session s2)"

text \<open>
  The application after \<open>__init__\<close>: the fields it assigns, the canvas items and the
  button as \<open>_create_widgets\<close> makes them, then \<open>reset_visuals\<close>.
\<close>

definition created_widgets :: BreathingApp where
  "created_widgets =
     \<lparr>selected_pattern = ''Balanced (1:1)'',
      breath_pace = DEFAULT_BREATH_PACE,
      session_duration = DEFAULT_SESSION_DURATION,
      is_running = False,
      current_phase = ''exhale'',
      progress = 0,
      scheduled_end = None,
      start_stop_button = ''Start'',
      arc_extent = 0,
      arc_outline = ''#3498db'',
      text_item = Ready,
      circle_coords = (15, 15, 285, 285),
      arc_coords = (15, 15, 285, 285),
      after_queue = [],
      after_counter = 0\<rparr>"

definition init_app :: "py_error + BreathingApp" where
  "init_app = reset_visuals created_widgets"

subsection \<open>The specification's wording\<close>

text \<open>
  The invariant the specification places on a pattern: as many labels as phases, at
  least one phase, every duration positive.
\<close>

definition pattern_invariant :: "BreathingPattern \<Rightarrow> bool" where
  "pattern_invariant pat \<longleftrightarrow>
     length (phases pat) = length (labels pat) \<and> 1 \<le> length (phases pat) \<and>
     list_all (\<lambda>d. 0 < d) (phases pat)"

text \<open>
  \<open>cycleSeconds\<close> as the specification defines it, and the remaining time of a phase
  in seconds as the specification asks for it: the remaining duration units, scaled by
  \<open>cycleSeconds / totalUnits\<close> when the pattern uses the pace.
\<close>

definition spec_cycleSeconds :: "BreathingPattern \<Rightarrow> real \<Rightarrow> real" where
  "spec_cycleSeconds pat pace = (if uses_pace pat then 60 / pace else sum_list (phases pat))"

definition spec_phaseRemainingSeconds :: "BreathingPattern \<Rightarrow> real \<Rightarrow> real \<Rightarrow> real \<Rightarrow> real" where
  "spec_phaseRemainingSeconds pat pace d e =
     (if uses_pace pat then (d - e) * (spec_cycleSeconds pat pace / sum_list (phases pat))
      else d - e)"

text \<open>The offset at which phase \<open>k\<close> starts: the sum of the durations before it.\<close>

definition phase_start :: "BreathingPattern \<Rightarrow> nat \<Rightarrow> real" where
  "phase_start pat k = sum_list (take k (phases pat))"

text \<open>
  The state the application is in after \<open>__init__\<close> and one call of
  \<open>toggle_session\<close> (the first press of "Start"): the session timer and the first
  tick are pending.
\<close>

definition first_tick_state :: BreathingApp where
  "first_tick_state =
     \<lparr>selected_pattern = ''Balanced (1:1)'',
      breath_pace = DEFAULT_BREATH_PACE,
      session_duration = DEFAULT_SESSION_DURATION,
      is_running = True,
      current_phase = ''inhale'',
      progress = 11 / 7500,
      scheduled_end = Some 0,
      start_stop_button = ''Stop'',
      arc_extent = 395989 / 375000,
      arc_outline = ''#3498db'',
      text_item = Countdown ''inhale'' (3739 / 3750),
      circle_coords = (76677 / 625, 76677 / 625, 110823 / 625, 110823 / 625),
      arc_coords = (76677 / 625, 76677 / 625, 110823 / 625, 110823 / 625),
      after_queue = [(0, 300000, StopSession), (1, 16, RunBreathingCycle)],
      after_counter = 2\<rparr>"

section \<open>Auxiliary facts\<close>

subsection \<open>The phase loop\<close>

lemma sum_list_pos_nonneg: "list_all (\<lambda>d. 0 < d) ds \<Longrightarrow> 0 \<le> sum_list (ds::real list)"
  by (induction ds) auto

lemma sum_list_take_nonneg: "list_all (\<lambda>d. 0 < d) ds \<Longrightarrow> 0 \<le> sum_list (take k (ds::real list))"
  by (induction ds arbitrary: k) (auto simp: take_Cons split: nat.splits)

lemma phase_loop_hit:
  "list_all (\<lambda>d. 0 < d) ds \<Longrightarrow> i + length ds \<le> length ls \<Longrightarrow> k < length ds \<Longrightarrow>
   c + sum_list (take k ds) \<le> t \<Longrightarrow> t < c + sum_list (take (Suc k) ds) \<Longrightarrow>
   phase_loop t ls i c ds =
     Inr (ls ! (i + k), (t - (c + sum_list (take k ds))) / (ds ! k),
          ds ! k - (t - (c + sum_list (take k ds))))"
proof (induction ds arbitrary: i c k)
  case Nil
  then show ?case by simp
next
  case (Cons d ds)
  show ?case
  proof (cases k)
    case 0
    with Cons.prems show ?thesis by (simp add: Let_def)
  next
    case (Suc k')
    have nn: "0 \<le> sum_list (take k' ds)"
      using Cons.prems(1) by (simp add: sum_list_take_nonneg)
    have step: "\<not> t < c + d"
      using Cons.prems(4) nn Suc by simp
    have "phase_loop t ls (Suc i) (c + d) ds =
      Inr (ls ! (Suc i + k'), (t - (c + d + sum_list (take k' ds))) / (ds ! k'),
          ds ! k' - (t - (c + d + sum_list (take k' ds))))"
      using Cons.prems Suc by (intro Cons.IH) (simp_all add: add.assoc)
    with step Suc show ?thesis by (simp add: add.assoc)
  qed
qed

lemma phase_loop_fallback:
  "list_all (\<lambda>d. 0 < d) ds \<Longrightarrow> c + sum_list ds \<le> t \<Longrightarrow>
   phase_loop t ls i c ds = (if ls = [] then Inl IndexError else Inr (last ls, 1, 0))"
proof (induction ds arbitrary: i c)
  case Nil
  then show ?case by simp
next
  case (Cons d ds)
  have "0 \<le> sum_list ds" using Cons.prems(1) by (simp add: sum_list_pos_nonneg)
  with Cons.prems have "\<not> t < c + d" by simp
  moreover have "phase_loop t ls (Suc i) (c + d) ds = (if ls = [] then Inl IndexError else Inr (last ls, 1, 0))"
    using Cons.prems by (intro Cons.IH) (simp_all add: add.assoc)
  ultimately show ?case by simp
qed

lemma phase_loop_total:
  "list_all (\<lambda>d. 0 < d) ds \<Longrightarrow> i + length ds \<le> length ls \<Longrightarrow> ls \<noteq> [] \<Longrightarrow> c \<le> t \<Longrightarrow>
   \<exists>l f r. phase_loop t ls i c ds = Inr (l, f, r) \<and> l \<in> set ls \<and> 0 \<le> f \<and> f \<le> 1"
proof (induction ds arbitrary: i c)
  case Nil
  then show ?case by simp
next
  case (Cons d ds)
  show ?case
  proof (cases "t < c + d")
    case True
    with Cons.prems show ?thesis by (simp add: Let_def)
  next
    case False
    with Cons.prems Cons.IH [of "Suc i" "c + d"] show ?thesis by simp
  qed
qed

lemma phase_loop_label:
  "list_all (\<lambda>d. d \<noteq> 0) ds \<Longrightarrow> i + length ds \<le> length ls \<Longrightarrow> ls \<noteq> [] \<Longrightarrow>
   \<exists>l f r. phase_loop t ls i c ds = Inr (l, f, r) \<and> l \<in> set ls"
proof (induction ds arbitrary: i c)
  case Nil
  then show ?case by simp
next
  case (Cons d ds)
  show ?case
  proof (cases "t < c + d")
    case True
    with Cons.prems show ?thesis by (simp add: Let_def)
  next
    case False
    with Cons.prems Cons.IH [of "Suc i" "c + d"] show ?thesis by simp
  qed
qed

lemma calc_hit:
  assumes inv: "pattern_invariant pat" and k: "k < length (phases pat)"
    and lo: "phase_start pat k \<le> nrm * tot" and hi: "nrm * tot < phase_start pat (Suc k)"
  shows "calc_phase_progress nrm pat tot =
           Inr (labels pat ! k, (nrm * tot - phase_start pat k) / (phases pat ! k),
                phases pat ! k - (nrm * tot - phase_start pat k))"
  using phase_loop_hit [of "phases pat" 0 "labels pat" k 0 "nrm * tot"] assms
  by (simp add: calc_phase_progress_def pattern_invariant_def phase_start_def)

lemma py_mod_one: "py_mod x 1 = frac x"
  by (simp add: py_mod_def frac_def)

subsection \<open>The overflow threshold\<close>

lemma small_below_float_overflow: "\<bar>q\<bar> \<le> 2 ^ 53 \<Longrightarrow> \<bar>q\<bar> < float_overflow"
proof -
  assume q: "\<bar>q\<bar> \<le> 2 ^ 53"
  have "(2 :: real) ^ 1024 = 2 ^ 970 * 2 ^ 54"
    by (simp add: power_add [symmetric])
  then have "float_overflow = 2 ^ 970 * (2 ^ 54 - 1)"
    by (simp add: float_overflow_def algebra_simps)
  moreover have "(1 :: real) \<le> 2 ^ 970"
    by (rule one_le_power) simp
  moreover have "(2 :: real) ^ 53 < 2 ^ 54 - 1"
    by simp
  ultimately have "(2 :: real) ^ 53 < float_overflow"
    by (smt (verit) mult_le_cancel_right1 mult.commute zero_less_power)
  with q show ?thesis by simp
qed

subsection \<open>Evaluating the session controller\<close>

lemma init_app_eval: "init_app = Inr created_widgets"
  by (simp add: init_app_def reset_visuals_def created_widgets_def subscript_def
      PHASE_COLORS_def update_circle_size_def CANVAS_SIZE_def CIRCLE_PADDING_def Let_def)

lemma advance_first: "advance 16 0 balanced (11 / 2) = Inr (11 / 7500)"
  by (simp add: advance_def cycle_time_def balanced_def py_mod_def)

lemma calc_first: "calc_phase_progress (11 / 7500) balanced 2 = Inr (''inhale'', 11 / 3750, 3739 / 3750)"
  by (simp add: calc_phase_progress_def balanced_def)

lemma patterns_balanced: "subscript patterns ''Balanced (1:1)'' = Inr balanced"
  by (simp add: subscript_def patterns_def)

lemma sum_balanced: "sum_list (phases balanced) = 2"
  by (simp add: balanced_def)

lemma visuals_first:
  "update_visuals (11 / 3750) r ''inhale'' s =
     Inr (s\<lparr>arc_outline := ''#3498db'', arc_extent := 395989 / 375000,
            text_item := Countdown ''inhale'' r,
            circle_coords := (76677 / 625, 76677 / 625, 110823 / 625, 110823 / 625),
            arc_coords := (76677 / 625, 76677 / 625, 110823 / 625, 110823 / 625)\<rparr>)"
  by (simp add: update_visuals_def subscript_def PHASE_COLORS_def scaleFactor_def
      SCALE_FACTORS_def update_circle_size_def CANVAS_SIZE_def CIRCLE_PADDING_def Let_def)

lemma toggle_start_eval: "toggle_session created_widgets = Inr first_tick_state"
  by (simp add: toggle_session_def created_widgets_def first_tick_state_def py_int_def
      DEFAULT_SESSION_DURATION_def DEFAULT_BREATH_PACE_def after_def run_breathing_cycle_def
      patterns_balanced sum_balanced UPDATE_INTERVAL_def advance_first calc_first
      visuals_first Let_def numeral_2_eq_2)

lemma reset_visuals_eq:
  "reset_visuals s =
     Inr (s\<lparr>progress := 0, current_phase := ''exhale'', arc_extent := 0,
            arc_outline := ''#3498db'', text_item := Ready,
            circle_coords := (15, 15, 285, 285), arc_coords := (15, 15, 285, 285)\<rparr>)"
  by (simp add: reset_visuals_def subscript_def PHASE_COLORS_def update_circle_size_def
      CANVAS_SIZE_def CIRCLE_PADDING_def Let_def)

lemma run_breathing_cycle_stopped: "\<not> is_running s \<Longrightarrow> run_breathing_cycle s = Inr s"
  by (simp add: run_breathing_cycle_def)

lemma stop_session_idempotent:
  "stop_session s = Inr s' \<Longrightarrow> stop_session s' = Inr s'"
  by (auto simp: stop_session_def reset_visuals_eq after_cancel_def Let_def
      split: if_splits option.splits)

subsection \<open>The pattern table and the phase dictionaries\<close>

lemma patterns_cases:
  "patterns name = Some pat \<Longrightarrow>
   pat = balanced \<or> pat = calm \<or> pat = vitality \<or> pat = four_seven_eight"
  unfolding patterns_def by (simp split: if_splits)

lemma dom_PHASE_COLORS: "dom PHASE_COLORS = {''inhale'', ''hold'', ''exhale''}"
  unfolding PHASE_COLORS_def dom_map_of_conv_image_fst by simp

lemma dom_SCALE_FACTORS: "dom SCALE_FACTORS = {''inhale'', ''hold'', ''exhale''}"
  unfolding SCALE_FACTORS_def dom_map_of_conv_image_fst by (simp add: insert_commute)

lemma table_pattern_labels:
  assumes "pat = balanced \<or> pat = calm \<or> pat = vitality \<or> pat = four_seven_eight"
  shows "list_all (\<lambda>d. d \<noteq> 0) (phases pat) \<and> length (phases pat) \<le> length (labels pat) \<and>
         labels pat \<noteq> [] \<and> set (labels pat) \<subseteq> {''inhale'', ''hold'', ''exhale''}"
proof -
  have "list_all (\<lambda>d. d \<noteq> 0) (phases balanced) \<and> length (phases balanced) \<le> length (labels balanced) \<and>
         labels balanced \<noteq> [] \<and> set (labels balanced) \<subseteq> {''inhale'', ''hold'', ''exhale''}"
    by (simp add: balanced_def)
  moreover have "list_all (\<lambda>d. d \<noteq> 0) (phases calm) \<and> length (phases calm) \<le> length (labels calm) \<and>
         labels calm \<noteq> [] \<and> set (labels calm) \<subseteq> {''inhale'', ''hold'', ''exhale''}"
    by (simp add: calm_def)
  moreover have "list_all (\<lambda>d. d \<noteq> 0) (phases vitality) \<and> length (phases vitality) \<le> length (labels vitality) \<and>
         labels vitality \<noteq> [] \<and> set (labels vitality) \<subseteq> {''inhale'', ''hold'', ''exhale''}"
    by (simp add: vitality_def)
  moreover have "list_all (\<lambda>d. d \<noteq> 0) (phases four_seven_eight) \<and>
         length (phases four_seven_eight) \<le> length (labels four_seven_eight) \<and>
         labels four_seven_eight \<noteq> [] \<and>
         set (labels four_seven_eight) \<subseteq> {''inhale'', ''hold'', ''exhale''}"
    by (simp add: four_seven_eight_def)
  ultimately show ?thesis using assms by (elim disjE) simp_all
qed

lemma table_label:
  assumes "pat = balanced \<or> pat = calm \<or> pat = vitality \<or> pat = four_seven_eight"
  shows "\<exists>l f r. calc_phase_progress nrm pat tot = Inr (l, f, r) \<and>
           l \<in> {''inhale'', ''hold'', ''exhale''}"
proof -
  from table_pattern_labels [OF assms]
  have ok: "list_all (\<lambda>d. d \<noteq> 0) (phases pat)" "0 + length (phases pat) \<le> length (labels pat)"
    "labels pat \<noteq> []" and sub: "set (labels pat) \<subseteq> {''inhale'', ''hold'', ''exhale''}"
    by simp_all
  from phase_loop_label [OF ok, of "nrm * tot" 0] obtain l f r where
    "phase_loop (nrm * tot) (labels pat) 0 0 (phases pat) = Inr (l, f, r)" "l \<in> set (labels pat)"
    by blast
  with sub show ?thesis
    unfolding calc_phase_progress_def by (intro exI [of _ l] exI [of _ f] exI [of _ r]) (rule conjI, assumption, erule subsetD)
qed

lemma update_visuals_ok:
  assumes "l \<in> {''inhale'', ''hold'', ''exhale''}"
  shows "\<exists>s'. update_visuals f r l s = Inr s'"
proof -
  from assms have "l \<in> dom PHASE_COLORS" "l \<in> dom SCALE_FACTORS"
    unfolding dom_PHASE_COLORS dom_SCALE_FACTORS by assumption+
  then obtain c g where "PHASE_COLORS l = Some c" "SCALE_FACTORS l = Some g"
    unfolding dom_def by (elim CollectE exE not_None_eq [THEN iffD1, elim_format]) 
  then show ?thesis
    by (simp add: update_visuals_def subscript_def scaleFactor_def Let_def)
qed

section \<open>Properties\<close>

text \<open>
  C1, at the default pattern and pace: "Balanced (1:1)" uses the pace, and at progress
  \<open>0.25\<close> the remaining time returned is \<open>0.5\<close>, the remaining duration units of the
  phase with no conversion to seconds. In seconds the remaining time is
  \<open>(d - e) * (cycleSeconds / totalUnits) = 30 / 11\<close>, and \<open>0.5 * cycleSeconds\<close> is
  \<open>60 / 11\<close>; the value returned is neither. For the pattern "4-7-8 (+hold)", which
  does not use the pace, the remaining time returned at progress \<open>6 / 19\<close> is \<open>5\<close>, which
  is the value in seconds.
\<close>

theorem paced_remaining_not_in_seconds:
  "uses_pace balanced \<and>
   calc_phase_progress 0.25 balanced (sum_list (phases balanced)) = Inr (''inhale'', 0.5, 0.5) \<and>
   spec_phaseRemainingSeconds balanced DEFAULT_BREATH_PACE 1 0.5 = 30 / 11 \<and>
   0.5 * spec_cycleSeconds balanced DEFAULT_BREATH_PACE = 60 / 11 \<and>
   \<not> uses_pace four_seven_eight \<and>
   calc_phase_progress (6 / 19) four_seven_eight (sum_list (phases four_seven_eight)) =
     Inr (''hold'', 2 / 7, 5) \<and>
   spec_phaseRemainingSeconds four_seven_eight DEFAULT_BREATH_PACE 7 2 = 5"
proof (intro conjI)
  show "uses_pace balanced"
    by (simp add: balanced_def)
  show "calc_phase_progress 0.25 balanced (sum_list (phases balanced)) =
          Inr (''inhale'', 0.5, 0.5)"
    by (simp add: calc_phase_progress_def balanced_def Let_def)
  show "spec_phaseRemainingSeconds balanced DEFAULT_BREATH_PACE 1 0.5 = 30 / 11"
    by (simp add: spec_phaseRemainingSeconds_def spec_cycleSeconds_def balanced_def
        DEFAULT_BREATH_PACE_def)
  show "0.5 * spec_cycleSeconds balanced DEFAULT_BREATH_PACE = 60 / 11"
    by (simp add: spec_cycleSeconds_def balanced_def DEFAULT_BREATH_PACE_def)
  show "\<not> uses_pace four_seven_eight"
    by (simp add: four_seven_eight_def)
  show "calc_phase_progress (6 / 19) four_seven_eight (sum_list (phases four_seven_eight)) =
          Inr (''hold'', 2 / 7, 5)"
    by (simp add: calc_phase_progress_def four_seven_eight_def Let_def)
  show "spec_phaseRemainingSeconds four_seven_eight DEFAULT_BREATH_PACE 7 2 = 5"
    by (simp add: spec_phaseRemainingSeconds_def four_seven_eight_def)
qed

text \<open>
  C2: for a pattern that satisfies the invariant, every progress in \<open>[0,1)\<close> resolves
  to a label of the pattern with a phase fraction in \<open>[0,1]\<close>; and whenever
  \<open>t = progress * totalUnits\<close> reaches or exceeds \<open>totalUnits\<close>, no phase condition
  holds and the result is the last label with fraction \<open>1.0\<close> and remaining time
  \<open>0.0\<close>.
\<close>

theorem resolvePhase_total:
  assumes "pattern_invariant pat"
  shows "(0 \<le> p \<and> p < 1 \<longrightarrow>
            (\<exists>l f r. calc_phase_progress p pat (sum_list (phases pat)) = Inr (l, f, r) \<and>
                     l \<in> set (labels pat) \<and> 0 \<le> f \<and> f \<le> 1)) \<and>
         (sum_list (phases pat) \<le> q * sum_list (phases pat) \<longrightarrow>
            calc_phase_progress q pat (sum_list (phases pat)) = Inr (last (labels pat), 1.0, 0.0))"
proof (intro conjI impI)
  assume p: "0 \<le> p \<and> p < 1"
  have "0 \<le> sum_list (phases pat)"
    using assms by (simp add: pattern_invariant_def sum_list_pos_nonneg)
  with p have "0 \<le> p * sum_list (phases pat)" by simp
  moreover have "labels pat \<noteq> []" using assms by (auto simp: pattern_invariant_def)
  ultimately show "\<exists>l f r. calc_phase_progress p pat (sum_list (phases pat)) = Inr (l, f, r) \<and>
                     l \<in> set (labels pat) \<and> 0 \<le> f \<and> f \<le> 1"
    unfolding calc_phase_progress_def
    using assms by (intro phase_loop_total) (simp_all add: pattern_invariant_def)
next
  assume q: "sum_list (phases pat) \<le> q * sum_list (phases pat)"
  have "labels pat \<noteq> []" using assms by (auto simp: pattern_invariant_def)
  then show "calc_phase_progress q pat (sum_list (phases pat)) = Inr (last (labels pat), 1.0, 0.0)"
    using phase_loop_fallback [of "phases pat" 0 "q * sum_list (phases pat)" "labels pat" 0] assms q
    by (simp add: calc_phase_progress_def pattern_invariant_def)
qed

theorem resolvePhase_total_witness:
  "pattern_invariant four_seven_eight \<and>
   (\<exists>l f r. calc_phase_progress (1/2) four_seven_eight (sum_list (phases four_seven_eight)) = Inr (l, f, r) \<and>
        l \<in> set (labels four_seven_eight) \<and> 0 \<le> f \<and> f \<le> 1) \<and>
   calc_phase_progress 1 four_seven_eight (sum_list (phases four_seven_eight)) = Inr (''exhale'', 1.0, 0.0)"
proof -
  have inv: "pattern_invariant four_seven_eight"
    by (simp add: pattern_invariant_def four_seven_eight_def)
  show ?thesis
    using resolvePhase_total [OF inv, of "1/2" 1] inv by (simp add: four_seven_eight_def)
qed

text \<open>
  C3: when the pace is positive (for a pattern that uses it) or the durations sum to a
  positive number (otherwise), a tick of \<open>tick\<close> seconds takes the progress \<open>prev\<close> to
  \<open>(prev + tick / cycleSeconds) mod 1\<close>, which lies in \<open>[0,1)\<close>. This holds for every
  \<open>prev\<close> and \<open>tick\<close>, in particular for \<open>prev\<close> in \<open>[0,1)\<close> and a positive tick.
\<close>

theorem advance_formula:
  assumes "if uses_pace pat then 0 < pace else 0 < sum_list (phases pat)"
  shows "\<exists>np. advance (1000 * tick) prev pat pace = Inr np \<and>
              np = frac (prev + tick / spec_cycleSeconds pat pace) \<and> 0 \<le> np \<and> np < 1"
proof -
  let ?cs = "spec_cycleSeconds pat pace"
  have ct: "cycle_time pat pace = Inr ?cs" and pos: "0 < ?cs"
    using assms by (auto simp: cycle_time_def spec_cycleSeconds_def split: if_splits)
  have "1000 * tick / (?cs * 1000) = tick / ?cs"
    by simp
  then have "advance (1000 * tick) prev pat pace = Inr (frac (prev + tick / ?cs))"
    using pos by (simp add: advance_def ct py_mod_one)
  then show ?thesis
    by (simp add: frac_lt_1)
qed

theorem advance_formula_witness:
  "(if uses_pace balanced then 0 < DEFAULT_BREATH_PACE else 0 < sum_list (phases balanced)) \<and>
   advance (of_int UPDATE_INTERVAL) (999/1000) balanced DEFAULT_BREATH_PACE = Inr (7/15000)"
proof -
  have h: "if uses_pace balanced then 0 < DEFAULT_BREATH_PACE else 0 < sum_list (phases balanced)"
    by (simp add: balanced_def DEFAULT_BREATH_PACE_def)
  have "frac (7503.5 / 7500 :: real) = 7 / 15000"
    by (simp add: frac_def)
  with advance_formula [OF h, of "16/1000" "999/1000"] h show ?thesis
    by (simp add: UPDATE_INTERVAL_def spec_cycleSeconds_def balanced_def DEFAULT_BREATH_PACE_def)
qed

text \<open>
  C4: phase \<open>k\<close> owns the half-open interval from its start to the start of the
  next phase: a \<open>t\<close> in it resolves to phase \<open>k\<close>, and a \<open>t\<close> exactly at the start of
  phase \<open>k\<close> (the boundary that ends the phase before it) resolves to phase \<open>k\<close> with
  fraction \<open>0\<close> and the whole duration remaining. For the durations \<open>[4, 7, 8]\<close> and
  progress \<open>4 / 19\<close> the result is \<open>("hold", 0.0, 7)\<close>.
\<close>

theorem phase_boundaries_left_closed:
  assumes "pattern_invariant pat" and "k < length (phases pat)"
    and "t = nrm * sum_list (phases pat)"
  shows "(phase_start pat k \<le> t \<and> t < phase_start pat (Suc k) \<longrightarrow>
            calc_phase_progress nrm pat (sum_list (phases pat)) =
              Inr (labels pat ! k, (t - phase_start pat k) / (phases pat ! k),
                   phases pat ! k - (t - phase_start pat k))) \<and>
         (t = phase_start pat k \<longrightarrow>
            calc_phase_progress nrm pat (sum_list (phases pat)) =
              Inr (labels pat ! k, 0, phases pat ! k)) \<and>
         calc_phase_progress (4 / 19) four_seven_eight (sum_list (phases four_seven_eight)) =
           Inr (''hold'', 0.0, 7)"
proof (intro conjI impI)
  assume "phase_start pat k \<le> t \<and> t < phase_start pat (Suc k)"
  then show "calc_phase_progress nrm pat (sum_list (phases pat)) =
              Inr (labels pat ! k, (t - phase_start pat k) / (phases pat ! k),
                   phases pat ! k - (t - phase_start pat k))"
    using calc_hit [OF assms(1,2), of nrm "sum_list (phases pat)"] assms(3) by simp
next
  assume eq: "t = phase_start pat k"
  have "0 < phases pat ! k"
    using assms(1,2) by (simp add: pattern_invariant_def list_all_length)
  then have "t < phase_start pat (Suc k)"
    using eq assms(2) by (simp add: phase_start_def take_Suc_conv_app_nth)
  then show "calc_phase_progress nrm pat (sum_list (phases pat)) =
              Inr (labels pat ! k, 0, phases pat ! k)"
    using calc_hit [OF assms(1,2), of nrm "sum_list (phases pat)"] assms(3) eq by simp
next
  show "calc_phase_progress (4 / 19) four_seven_eight (sum_list (phases four_seven_eight)) =
           Inr (''hold'', 0.0, 7)"
    by (simp add: calc_phase_progress_def four_seven_eight_def)
qed

theorem phase_boundaries_left_closed_witness:
  "pattern_invariant four_seven_eight \<and> 2 < length (phases four_seven_eight) \<and>
   phase_start four_seven_eight 2 = 11 \<and> phase_start four_seven_eight 3 = 19 \<and>
   calc_phase_progress (11 / 19) four_seven_eight (sum_list (phases four_seven_eight)) =
     Inr (''exhale'', 0, 8) \<and>
   calc_phase_progress (15 / 19) four_seven_eight (sum_list (phases four_seven_eight)) =
     Inr (''exhale'', 1 / 2, 4)"
proof -
  have inv: "pattern_invariant four_seven_eight"
    by (simp add: pattern_invariant_def four_seven_eight_def)
  have k: "2 < length (phases four_seven_eight)"
    by (simp add: four_seven_eight_def)
  have s2: "phase_start four_seven_eight 2 = 11" 
    by (simp add: phase_start_def four_seven_eight_def numeral_2_eq_2)
  have s3: "phase_start four_seven_eight (Suc 2) = 19"
    by (simp add: phase_start_def four_seven_eight_def)
  have ph: "phases four_seven_eight ! 2 = 8" "labels four_seven_eight ! 2 = ''exhale''"
    "sum_list (phases four_seven_eight) = 19"
    by (simp_all add: four_seven_eight_def numeral_2_eq_2)
  from phase_boundaries_left_closed [OF inv k, of "11" "11 / 19"]
       phase_boundaries_left_closed [OF inv k, of "15" "15 / 19"]
  show ?thesis using inv k s2 s3 ph by (simp add: numeral_3_eq_3 numeral_2_eq_2)
qed

text \<open>
  C5: for every phase fraction \<open>p\<close> (in particular every \<open>p\<close> in \<open>[0,1]\<close>), the scale
  factor of "inhale" is \<open>0.2 + 0.8 * p\<close>, that of "exhale" is \<open>1.0 - 0.8 * p\<close> and that
  of "hold" is \<open>1.0\<close>; at the ends, "inhale" gives \<open>0.2\<close> at \<open>0\<close> and \<open>1.0\<close> at \<open>1\<close>.
\<close>

theorem scaleFactor_formulas:
  "scaleFactor ''inhale'' p = Inr (0.2 + 0.8 * p) \<and>
   scaleFactor ''exhale'' p = Inr (1.0 - 0.8 * p) \<and>
   scaleFactor ''hold'' p = Inr 1.0 \<and>
   scaleFactor ''inhale'' 0.0 = Inr 0.2 \<and>
   scaleFactor ''inhale'' 1.0 = Inr 1.0"
  by (simp add: scaleFactor_def subscript_def SCALE_FACTORS_def)

text \<open>
  C6, as first stated: a number outside the bounds is clamped but the bell stays
  silent, and an input that is not a number rings the bell but leaves the variable as
  it was; on no input does the handler both clamp and ring.
\<close>

theorem update_scale_clamp_and_bell_counterexample:
  "update_scale (Number 100) MIN_BREATH_PACE MAX_BREATH_PACE 0.5 ''bpm''
     \<lparr>var = 5.5, label_shown = (5.5, ''bpm''), bells = 0\<rparr> =
     \<lparr>var = 9, label_shown = (9, ''bpm''), bells = 0\<rparr> \<and>
   update_scale Malformed MIN_BREATH_PACE MAX_BREATH_PACE 0.5 ''bpm''
     \<lparr>var = 5.5, label_shown = (5.5, ''bpm''), bells = 0\<rparr> =
     \<lparr>var = 5.5, label_shown = (5.5, ''bpm''), bells = 1\<rparr>"
proof -
  have "\<not> float_overflow \<le> \<bar>100 / 0.5\<bar>" "\<not> float_overflow \<le> \<bar>100\<bar>"
    using small_below_float_overflow [of "100 / 0.5"] small_below_float_overflow [of 100]
    by simp_all
  then show ?thesis
    by (simp add: update_scale_def MIN_BREATH_PACE_def MAX_BREATH_PACE_def py_round_def Let_def)
qed

text \<open>
  C6, amended: the handler returns on every input and does one of two things. When the
  input is a number, the step is not zero and neither the number nor its quotient by
  the step overflows, the number is snapped to the step and clamped: the variable holds
  the clamped value, which lies within the bounds and is the point of \<open>[mn, mx]\<close>
  nearest to the snapped value, and the bell is not rung. On every other input (not a
  number, not finite, a zero step, or a number or quotient that overflows) the variable
  and the label stay as they were and the bell is rung once.
\<close>

theorem update_scale_recovers:
  "(step \<noteq> 0 \<and> \<bar>x\<bar> < float_overflow \<and> \<bar>x / step\<bar> < float_overflow \<longrightarrow>
      var (update_scale (Number x) mn mx step unit w) =
        max mn (min (of_int (py_round (x / step)) * step) mx) \<and>
      bells (update_scale (Number x) mn mx step unit w) = bells w \<and>
      (mn \<le> mx \<longrightarrow>
         mn \<le> var (update_scale (Number x) mn mx step unit w) \<and>
         var (update_scale (Number x) mn mx step unit w) \<le> mx \<and>
         (\<forall>y. mn \<le> y \<and> y \<le> mx \<longrightarrow>
            \<bar>var (update_scale (Number x) mn mx step unit w) - of_int (py_round (x / step)) * step\<bar>
              \<le> \<bar>y - of_int (py_round (x / step)) * step\<bar>))) \<and>
   (v = NonFinite \<or> v = Malformed \<or> step = 0 \<or>
    (\<exists>z. v = Number z \<and> (float_overflow \<le> \<bar>z\<bar> \<or> float_overflow \<le> \<bar>z / step\<bar>)) \<longrightarrow>
      update_scale v mn mx step unit w = w\<lparr>bells := Suc (bells w)\<rparr>)"
proof (rule conjI)
  let ?s = "of_int (py_round (x / step)) * step"
  let ?u = "update_scale (Number x) mn mx step unit w"
  show "step \<noteq> 0 \<and> \<bar>x\<bar> < float_overflow \<and> \<bar>x / step\<bar> < float_overflow \<longrightarrow>
        var ?u = max mn (min ?s mx) \<and> bells ?u = bells w \<and>
        (mn \<le> mx \<longrightarrow> mn \<le> var ?u \<and> var ?u \<le> mx \<and>
           (\<forall>y. mn \<le> y \<and> y \<le> mx \<longrightarrow> \<bar>var ?u - ?s\<bar> \<le> \<bar>y - ?s\<bar>))"
  proof (rule impI)
    assume a: "step \<noteq> 0 \<and> \<bar>x\<bar> < float_overflow \<and> \<bar>x / step\<bar> < float_overflow"
    have v: "var ?u = max mn (min ?s mx)" and b: "bells ?u = bells w"
      using a by (simp_all add: update_scale_def Let_def)
    show "var ?u = max mn (min ?s mx) \<and> bells ?u = bells w \<and>
        (mn \<le> mx \<longrightarrow> mn \<le> var ?u \<and> var ?u \<le> mx \<and>
           (\<forall>y. mn \<le> y \<and> y \<le> mx \<longrightarrow> \<bar>var ?u - ?s\<bar> \<le> \<bar>y - ?s\<bar>))"
      unfolding v b by auto
  qed
  show "v = NonFinite \<or> v = Malformed \<or> step = 0 \<or>
          (\<exists>z. v = Number z \<and> (float_overflow \<le> \<bar>z\<bar> \<or> float_overflow \<le> \<bar>z / step\<bar>)) \<longrightarrow>
        update_scale v mn mx step unit w = w\<lparr>bells := Suc (bells w)\<rparr>"
    by (cases v) (auto simp: update_scale_def)
qed

theorem update_scale_recovers_witness:
  "(0.5 :: real) \<noteq> 0 \<and> \<bar>1.3 :: real\<bar> < float_overflow \<and>
   \<bar>1.3 / 0.5 :: real\<bar> < float_overflow \<and>
   MIN_BREATH_PACE \<le> MAX_BREATH_PACE \<and>
   var (update_scale (Number 1.3) MIN_BREATH_PACE MAX_BREATH_PACE 0.5 ''bpm''
          \<lparr>var = 5.5, label_shown = (5.5, ''bpm''), bells = 0\<rparr>) = 2 \<and>
   bells (update_scale (Number 1.3) MIN_BREATH_PACE MAX_BREATH_PACE 0.5 ''bpm''
          \<lparr>var = 5.5, label_shown = (5.5, ''bpm''), bells = 0\<rparr>) = 0 \<and>
   float_overflow \<le> \<bar>2 ^ 1023 / 0.5 :: real\<bar> \<and>
   update_scale (Number (2 ^ 1023)) MIN_BREATH_PACE MAX_BREATH_PACE 0.5 ''bpm''
          \<lparr>var = 5.5, label_shown = (5.5, ''bpm''), bells = 0\<rparr> =
     \<lparr>var = 5.5, label_shown = (5.5, ''bpm''), bells = 1\<rparr>"
proof -
  have r: "py_round (1.3 / 0.5) = 3"
    by (simp add: py_round_def Let_def)
  have small: "\<bar>1.3 / 0.5 :: real\<bar> < float_overflow" "\<bar>1.3 :: real\<bar> < float_overflow"
    using small_below_float_overflow [of "1.3 / 0.5"] small_below_float_overflow [of "1.3"]
    by simp_all
  have "(2 :: real) ^ 1023 / 0.5 = 2 ^ 1024"
    by simp
  then have big: "float_overflow \<le> \<bar>2 ^ 1023 / 0.5 :: real\<bar>"
    by (simp add: float_overflow_def)
  have ex: "\<exists>z. Number (2 ^ 1023) = Number z \<and>
              (float_overflow \<le> \<bar>z\<bar> \<or> float_overflow \<le> \<bar>z / 0.5\<bar>)"
    using big by blast
  from update_scale_recovers [of "0.5" "1.3" MIN_BREATH_PACE MAX_BREATH_PACE "''bpm''"
         "\<lparr>var = 5.5, label_shown = (5.5, ''bpm''), bells = 0\<rparr>" "Number (2 ^ 1023)"]
  show ?thesis using r small big ex
    by (simp add: MIN_BREATH_PACE_def MAX_BREATH_PACE_def)
qed

text \<open>
  C7, as first stated: \<open>stop_session\<close> on the running state reached by the first
  press of "Start" cancels the session timer, but the pending tick stays in the table
  of scheduled callbacks.
\<close>

theorem stop_session_cancels_tick_counterexample:
  "toggle_session created_widgets = Inr first_tick_state \<and>
   after_queue first_tick_state = [(0, 300000, StopSession), (1, 16, RunBreathingCycle)] \<and>
   stop_session first_tick_state =
     Inr (created_widgets\<lparr>start_stop_button := ''Stop'',
            after_queue := [(1, 16, RunBreathingCycle)], after_counter := 2\<rparr>)"
proof (intro conjI)
  show "toggle_session created_widgets = Inr first_tick_state"
    by (rule toggle_start_eval)
  show "after_queue first_tick_state = [(0, 300000, StopSession), (1, 16, RunBreathingCycle)]"
    by (simp add: first_tick_state_def)
  show "stop_session first_tick_state =
     Inr (created_widgets\<lparr>start_stop_button := ''Stop'',
            after_queue := [(1, 16, RunBreathingCycle)], after_counter := 2\<rparr>)"
    by (simp add: first_tick_state_def created_widgets_def stop_session_def reset_visuals_eq
        after_cancel_def)
qed

text \<open>
  C7, amended: \<open>stop_session\<close>, called while the running flag is set, clears the
  flag, cancels the pending session-end callback and forgets its identifier; every
  other pending callback, the tick among them, stays scheduled. A tick that runs while
  the flag is cleared returns the state unchanged, so it schedules no further tick.
\<close>

theorem stop_session_cancellation:
  "(is_running s \<longrightarrow>
      (\<exists>s'. stop_session s = Inr s' \<and> \<not> is_running s' \<and> scheduled_end s' = None \<and>
            after_queue s' = filter (\<lambda>(i, ms, cb). Some i \<noteq> scheduled_end s) (after_queue s) \<and>
            (\<forall>h. scheduled_end s = Some h \<longrightarrow> h \<notin> fst ` set (after_queue s')) \<and>
            run_breathing_cycle s' = Inr s')) \<and>
   (\<not> is_running u \<longrightarrow> run_breathing_cycle u = Inr u)"
proof (intro conjI impI)
  assume run: "is_running s"
  show "\<exists>s'. stop_session s = Inr s' \<and> \<not> is_running s' \<and> scheduled_end s' = None \<and>
            after_queue s' = filter (\<lambda>(i, ms, cb). Some i \<noteq> scheduled_end s) (after_queue s) \<and>
            (\<forall>h. scheduled_end s = Some h \<longrightarrow> h \<notin> fst ` set (after_queue s')) \<and>
            run_breathing_cycle s' = Inr s'"
  proof (cases "scheduled_end s")
    case None
    with run show ?thesis
      by (simp add: stop_session_def reset_visuals_eq run_breathing_cycle_stopped)
  next
    case (Some h)
    have "filter (\<lambda>(i, ms, cb). i \<noteq> h) (after_queue s) =
          filter (\<lambda>(i, ms, cb). Some i \<noteq> Some h) (after_queue s)"
      by simp
    with run Some show ?thesis
      by (auto simp: stop_session_def reset_visuals_eq run_breathing_cycle_stopped
          after_cancel_def)
  qed
next
  assume "\<not> is_running u"
  then show "run_breathing_cycle u = Inr u" by (rule run_breathing_cycle_stopped)
qed

theorem stop_session_cancellation_witness:
  "is_running first_tick_state \<and>
   stop_session first_tick_state =
     Inr (created_widgets\<lparr>start_stop_button := ''Stop'',
            after_queue := [(1, 16, RunBreathingCycle)], after_counter := 2\<rparr>) \<and>
   \<not> is_running created_widgets \<and> run_breathing_cycle created_widgets = Inr created_widgets"
proof -
  have a: "is_running first_tick_state" and b: "\<not> is_running created_widgets"
    by (simp_all add: first_tick_state_def created_widgets_def)
  from stop_session_cancellation [of first_tick_state created_widgets] a b
  show ?thesis
    by (auto simp: first_tick_state_def created_widgets_def stop_session_def reset_visuals_eq
        after_cancel_def)
qed

text \<open>
  C8: from every state, \<open>stop_session\<close> returns without an exception and leaves the
  progress at \<open>0\<close> and the current phase at "exhale"; so does stopping a running
  session through \<open>toggle_session\<close>.
\<close>

theorem stop_resets_cycle_state:
  "(\<exists>s'. stop_session s = Inr s' \<and> progress s' = 0 \<and> current_phase s' = ''exhale'') \<and>
   (is_running s \<longrightarrow>
      (\<exists>s'. toggle_session s = Inr s' \<and> progress s' = 0 \<and> current_phase s' = ''exhale''))"
  by (simp add: stop_session_def toggle_session_def reset_visuals_eq Let_def)

theorem stop_resets_cycle_state_witness:
  "is_running first_tick_state \<and> progress first_tick_state = 11 / 7500 \<and>
   current_phase first_tick_state = ''inhale'' \<and>
   (\<exists>s'. stop_session first_tick_state = Inr s' \<and> progress s' = 0 \<and>
         current_phase s' = ''exhale'') \<and>
   (\<exists>s'. toggle_session first_tick_state = Inr s' \<and> progress s' = 0 \<and>
         current_phase s' = ''exhale'')"
  using stop_resets_cycle_state [of first_tick_state]
  by (simp add: first_tick_state_def)

text \<open>
  C9, at the state reached by pressing "Start" and then "Stop": \<open>toggle_session\<close>
  clears the flag before it calls \<open>stop_session\<close>, so that call finds the flag cleared,
  skips the cancellation and leaves \<open>scheduled_end\<close> at the identifier of the session
  timer, which stays pending; a further \<open>stop_session\<close> changes nothing.
\<close>

theorem stop_session_leaves_scheduled_end:
  "toggle_session created_widgets = Inr first_tick_state \<and>
   toggle_session first_tick_state =
     Inr (created_widgets\<lparr>scheduled_end := Some 0,
            after_queue := [(0, 300000, StopSession), (1, 16, RunBreathingCycle)],
            after_counter := 2\<rparr>) \<and>
   stop_session (first_tick_state\<lparr>is_running := False, start_stop_button := ''Start''\<rparr>) =
     Inr (created_widgets\<lparr>scheduled_end := Some 0,
            after_queue := [(0, 300000, StopSession), (1, 16, RunBreathingCycle)],
            after_counter := 2\<rparr>) \<and>
   stop_session (created_widgets\<lparr>scheduled_end := Some 0,
            after_queue := [(0, 300000, StopSession), (1, 16, RunBreathingCycle)],
            after_counter := 2\<rparr>) =
     Inr (created_widgets\<lparr>scheduled_end := Some 0,
            after_queue := [(0, 300000, StopSession), (1, 16, RunBreathingCycle)],
            after_counter := 2\<rparr>)"
proof (intro conjI)
  show "toggle_session created_widgets = Inr first_tick_state"
    by (rule toggle_start_eval)
  show "toggle_session first_tick_state =
     Inr (created_widgets\<lparr>scheduled_end := Some 0,
            after_queue := [(0, 300000, StopSession), (1, 16, RunBreathingCycle)],
            after_counter := 2\<rparr>)"
    by (simp add: first_tick_state_def created_widgets_def toggle_session_def stop_session_def
        reset_visuals_eq Let_def)
  show "stop_session (first_tick_state\<lparr>is_running := False, start_stop_button := ''Start''\<rparr>) =
     Inr (created_widgets\<lparr>scheduled_end := Some 0,
            after_queue := [(0, 300000, StopSession), (1, 16, RunBreathingCycle)],
            after_counter := 2\<rparr>)"
    by (simp add: first_tick_state_def created_widgets_def stop_session_def reset_visuals_eq)
  show "stop_session (created_widgets\<lparr>scheduled_end := Some 0,
            after_queue := [(0, 300000, StopSession), (1, 16, RunBreathingCycle)],
            after_counter := 2\<rparr>) =
     Inr (created_widgets\<lparr>scheduled_end := Some 0,
            after_queue := [(0, 300000, StopSession), (1, 16, RunBreathingCycle)],
            after_counter := 2\<rparr>)"
    by (simp add: created_widgets_def stop_session_def reset_visuals_eq)
qed

text \<open>
  C10: for every pattern of the table and every progress value,
  \<open>_calc_phase_progress\<close> returns a label among "inhale", "hold" and "exhale"; these
  three are exactly the keys of \<open>PHASE_COLORS\<close> and of \<open>SCALE_FACTORS\<close>, and
  \<open>_update_visuals\<close> on the returned triple raises no \<open>KeyError\<close>.
\<close>

theorem table_labels_have_colour_and_scale:
  assumes "patterns name = Some pat"
  shows "\<exists>l f r. calc_phase_progress nrm pat (sum_list (phases pat)) = Inr (l, f, r) \<and>
           l \<in> {''inhale'', ''hold'', ''exhale''} \<and>
           dom PHASE_COLORS = {''inhale'', ''hold'', ''exhale''} \<and>
           dom SCALE_FACTORS = {''inhale'', ''hold'', ''exhale''} \<and>
           (\<exists>s'. update_visuals f r l s = Inr s')"
proof -
  from table_label [OF patterns_cases [OF assms]] obtain l f r where
    c: "calc_phase_progress nrm pat (sum_list (phases pat)) = Inr (l, f, r)"
    and l: "l \<in> {''inhale'', ''hold'', ''exhale''}" by blast
  have v: "\<exists>s'. update_visuals f r l s = Inr s'"
    using l by (rule update_visuals_ok)
  show ?thesis
    by (intro exI [of _ l] exI [of _ f] exI [of _ r] conjI c l dom_PHASE_COLORS
        dom_SCALE_FACTORS v)
qed

theorem table_labels_have_colour_and_scale_witness:
  "patterns ''4-7-8 (+hold)'' = Some four_seven_eight \<and>
   (\<exists>l f r. calc_phase_progress (- 3) four_seven_eight (sum_list (phases four_seven_eight)) =
        Inr (l, f, r) \<and> l \<in> {''inhale'', ''hold'', ''exhale''} \<and>
        dom PHASE_COLORS = {''inhale'', ''hold'', ''exhale''} \<and>
        dom SCALE_FACTORS = {''inhale'', ''hold'', ''exhale''} \<and>
        (\<exists>s'. update_visuals f r l created_widgets = Inr s'))"
proof -
  have p: "patterns ''4-7-8 (+hold)'' = Some four_seven_eight"
    by (simp add: patterns_def)
  show ?thesis
    by (rule conjI [OF p table_labels_have_colour_and_scale [OF p]])
qed

end
